theory Spec2Isabelle
  imports Main
begin

section \<open>JavaScript values\<close>

text \<open>
  The values that flow through \<^verbatim>\<open>TransmissionRPCClient.js\<close>: what a caller passes as
  \<^verbatim>\<open>ids\<close>, \<^verbatim>\<open>keys\<close> or \<^verbatim>\<open>fields\<close>, what a decoded response body holds, and what a
  header lookup returns. Numbers are integers here (torrent ids, counters); an object is
  the list of its own properties in insertion order. \<open>JBox v\<close> is the wrapper object
  that \<^verbatim>\<open>Object(v)\<close> makes of a primitive \<open>v\<close>.
\<close>

datatype jsval =
    JUndefined
  | JNull
  | JBool bool
  | JNum int
  | JStr string
  | JArr "jsval list"
  | JObj "(string \<times> jsval) list"
  | JBox jsval

text \<open>A JSON text, up to its rendering as characters.\<close>

datatype json =
    JsonNull
  | JsonBool bool
  | JsonNum int
  | JsonStr string
  | JsonArr "json list"
  | JsonObj "(string \<times> json) list"

text \<open>
  \<^verbatim>\<open>JSON.stringify\<close>: \<^verbatim>\<open>undefined\<close> has no JSON text (the result is \<open>None\<close>), a
  property whose value is \<^verbatim>\<open>undefined\<close> is left out of its object, an array element that
  is \<^verbatim>\<open>undefined\<close> is written \<^verbatim>\<open>null\<close>, and a wrapper object is written as the primitive
  it wraps.
\<close>

fun JSON_stringify :: "jsval \<Rightarrow> json option" where
  "JSON_stringify JUndefined = None"
| "JSON_stringify JNull = Some JsonNull"
| "JSON_stringify (JBool b) = Some (JsonBool b)"
| "JSON_stringify (JNum n) = Some (JsonNum n)"
| "JSON_stringify (JStr s) = Some (JsonStr s)"
| "JSON_stringify (JArr xs) =
     Some (JsonArr (map (\<lambda>x. case JSON_stringify x of None \<Rightarrow> JsonNull | Some j \<Rightarrow> j) xs))"
| "JSON_stringify (JObj kvs) =
     Some (JsonObj (concat (map (\<lambda>kv. case JSON_stringify (snd kv) of
                                         None \<Rightarrow> []
                                       | Some j \<Rightarrow> [(fst kv, j)]) kvs)))"
| "JSON_stringify (JBox v) = JSON_stringify v"

text \<open>Truthiness, as \<^verbatim>\<open>&&\<close> tests it: every object (array, wrapper) is truthy.\<close>

fun truthy :: "jsval \<Rightarrow> bool" where
  "truthy JUndefined = False"
| "truthy JNull = False"
| "truthy (JBool b) = b"
| "truthy (JNum n) = (n \<noteq> 0)"
| "truthy (JStr s) = (s \<noteq> [])"
| "truthy (JArr xs) = True"
| "truthy (JObj kvs) = True"
| "truthy (JBox v) = True"

text \<open>\<^verbatim>\<open>a && b\<close>: the left operand when it is falsy, the right one otherwise.\<close>

definition js_and :: "jsval \<Rightarrow> jsval \<Rightarrow> jsval" where
  "js_and a b = (if truthy a then b else a)"

section \<open>The HTTP collaborator\<close>

record response =
  status :: int
  resp_headers :: "(string \<times> jsval) list"
  resp_data :: jsval

text \<open>
  What JavaScript code can throw or reject with. \<open>AxiosError msg r\<close> is the error
  object of the HTTP client; \<open>r\<close> is its \<^verbatim>\<open>response\<close> property, present when the server
  answered with a failure status. \<open>Thrown v\<close> is a thrown value that is not an Error
  object, such as a string.
\<close>

datatype exn =
    AxiosError string "response option"
  | TypeError string
  | ReferenceError string
  | Thrown jsval

text \<open>\<^verbatim>\<open>e?.response\<close>\<close>

fun err_response :: "exn \<Rightarrow> response option" where
  "err_response (AxiosError msg r) = r"
| "err_response (TypeError msg) = None"
| "err_response (ReferenceError msg) = None"
| "err_response (Thrown v) = None"

record request =
  url :: string
  verb :: string
  headers :: "(string \<times> jsval) list"
  data :: "json option"

text \<open>\<^verbatim>\<open>obj[key]\<close> on a plain object: \<^verbatim>\<open>undefined\<close> when the key is absent.\<close>

definition lookup :: "(string \<times> jsval) list \<Rightarrow> string \<Rightarrow> jsval" where
  "lookup kvs k = (case map_of kvs k of None \<Rightarrow> JUndefined | Some v \<Rightarrow> v)"

text \<open>
  \<^verbatim>\<open>axios.request\<close> is outside the repository: a deterministic transformer of the state
  \<open>'w\<close> of the world beyond the client (network and daemon), which fulfils with a
  response (\<open>Inr\<close>) or rejects (\<open>Inl\<close>).
\<close>

type_synonym 'w net = "'w \<Rightarrow> request \<Rightarrow> (exn + response) \<times> 'w"

section \<open>The client\<close>

text \<open>The fields of a \<^verbatim>\<open>TransmissionRPCClient\<close> instance.\<close>

record client =
  this_url :: string
  sessionId :: jsval
  auth :: string

text \<open>
  The instance with its surroundings: every request handed to \<^verbatim>\<open>axios.request\<close>
  with the outcome it had, oldest first; the values thrown inside an \<^verbatim>\<open>async\<close>
  executor, which reject the executor's own promise and reach no caller; and the world.
\<close>

record 'w state =
  self :: client
  exchanges :: "(request \<times> (exn + response)) list"
  unhandled :: "exn list"
  world :: 'w

datatype promise = Resolved jsval | Rejected exn | Pending

text \<open>
  The constructor. \<^verbatim>\<open>new URL(url).toString()\<close> and the base64 encoding are the
  platform's; \<open>URL_toString\<close> is \<open>None\<close> where \<^verbatim>\<open>new URL\<close> throws.
\<close>

definition constructor ::
  "(string \<Rightarrow> string option) \<Rightarrow> (string \<Rightarrow> string) \<Rightarrow> string \<Rightarrow> string \<Rightarrow> string \<Rightarrow> exn + client" where
  "constructor URL_toString base64 url' user password =
     (case URL_toString url' of
        None \<Rightarrow> Inl (TypeError ''Invalid URL'')
      | Some u \<Rightarrow> Inr \<lparr> this_url = u, sessionId = JNull,
                       auth = base64 (user @ '':'' @ password) \<rparr>)"

text \<open>The request object that one pass of the loop in \<^verbatim>\<open>http\<close> builds.\<close>

definition build_request :: "client \<Rightarrow> string \<Rightarrow> jsval \<Rightarrow> request" where
  "build_request this method' keys =
     \<lparr> url = this_url this,
       verb = ''post'',
       headers = [(''Accept'', JStr ''application/json''),
                  (''Content-Type'', JStr ''application/json''),
                  (''x-transmission-session-id'', sessionId this),
                  (''Authorization'', JStr (''Basic '' @ auth this))],
       data = JSON_stringify (JObj [(''method'', JStr method'), (''arguments'', keys)]) \<rparr>"

text \<open>
  \<^verbatim>\<open>http(method, keys)\<close>. The \<^verbatim>\<open>while (true)\<close> loop has no bound, so the function is
  partial: \<open>None\<close> is the run that is challenged forever. An error without a
  \<^verbatim>\<open>response\<close> fails both status tests (\<^verbatim>\<open>undefined === 409\<close> is false). On status 401 the string is
  thrown inside the \<^verbatim>\<open>async\<close> executor: neither \<^verbatim>\<open>resolve\<close> nor \<^verbatim>\<open>reject\<close> is called,
  and the promise that \<^verbatim>\<open>http\<close> returned stays pending.
\<close>

partial_function (option) http ::
  "'w net \<Rightarrow> 'w state \<Rightarrow> string \<Rightarrow> jsval \<Rightarrow> (promise \<times> 'w state) option" where
  "http net s method' keys =
     (let req = build_request (self s) method' keys;
          sent = net (world s) req;
          s1 = s\<lparr> exchanges := exchanges s @ [(req, fst sent)], world := snd sent \<rparr>
      in case fst sent of
           Inr resp \<Rightarrow> Some (Resolved (resp_data resp), s1)
         | Inl e \<Rightarrow>
             (case err_response e of
                None \<Rightarrow> Some (Rejected e, s1)
              | Some r \<Rightarrow>
                  if status r = 409
                  then http net
                         (s1\<lparr> self := (self s1)\<lparr> sessionId :=
                                lookup (resp_headers r) ''x-transmission-session-id'' \<rparr> \<rparr>)
                         method' keys
                  else if status r = 401
                  then Some (Pending,
                             s1\<lparr> unhandled := unhandled s1 @
                                   [Thrown (JStr ''Unauthorized to access RPC Server'')] \<rparr>)
                  else Some (Rejected e, s1)))"

declare http.simps [code]


section \<open>The public operations\<close>

text \<open>
  \<^verbatim>\<open>resp.result\<close>, \<^verbatim>\<open>resp.arguments\<close>: reading a property of \<^verbatim>\<open>undefined\<close> or \<^verbatim>\<open>null\<close>
  throws a TypeError; a value that is not a plain object has neither property.
\<close>

fun get_prop :: "jsval \<Rightarrow> string \<Rightarrow> exn + jsval" where
  "get_prop JUndefined k = Inl (TypeError ''Cannot read properties of undefined'')"
| "get_prop JNull k = Inl (TypeError ''Cannot read properties of null'')"
| "get_prop (JObj kvs) k = Inr (lookup kvs k)"
| "get_prop v k = Inr JUndefined"

text \<open>\<^verbatim>\<open>resp.result === "success" ? resp.arguments : null\<close>\<close>

definition arguments_or_null :: "jsval \<Rightarrow> exn + jsval" where
  "arguments_or_null resp =
     (case get_prop resp ''result'' of
        Inl e \<Rightarrow> Inl e
      | Inr r \<Rightarrow> if r = JStr ''success'' then get_prop resp ''arguments'' else Inr JNull)"

text \<open>\<^verbatim>\<open>resp.result === "success" ? resp.arguments : resp.result\<close>\<close>

definition arguments_or_result :: "jsval \<Rightarrow> exn + jsval" where
  "arguments_or_result resp =
     (case get_prop resp ''result'' of
        Inl e \<Rightarrow> Inl e
      | Inr r \<Rightarrow> if r = JStr ''success'' then get_prop resp ''arguments''
                 else get_prop resp ''result'')"

text \<open>
  \<^verbatim>\<open>Object.assign(target)\<close> with no source: \<^verbatim>\<open>undefined\<close> and \<^verbatim>\<open>null\<close> cannot be made
  objects; another primitive is wrapped; an object is returned as it is.
\<close>

fun Object_assign :: "jsval \<Rightarrow> exn + jsval" where
  "Object_assign JUndefined = Inl (TypeError ''Cannot convert undefined or null to object'')"
| "Object_assign JNull = Inl (TypeError ''Cannot convert undefined or null to object'')"
| "Object_assign (JBool b) = Inr (JBox (JBool b))"
| "Object_assign (JNum n) = Inr (JBox (JNum n))"
| "Object_assign (JStr s) = Inr (JBox (JStr s))"
| "Object_assign (JArr xs) = Inr (JArr xs)"
| "Object_assign (JObj kvs) = Inr (JObj kvs)"
| "Object_assign (JBox v) = Inr (JBox v)"

text \<open>
  How the \<^verbatim>\<open>async\<close> executor given to \<^verbatim>\<open>new Promise\<close> ends: it calls \<^verbatim>\<open>resolve\<close>, it
  calls \<^verbatim>\<open>reject\<close>, it throws, or it waits for ever at an \<^verbatim>\<open>await\<close>. A throw rejects
  the promise of the executor itself, which nobody holds: the promise that was returned
  to the caller stays pending.
\<close>

datatype completion = Resolve jsval | Reject exn | Throw exn | Suspended

fun settle :: "completion \<Rightarrow> 'w state \<Rightarrow> promise \<times> 'w state" where
  "settle (Resolve v) s = (Resolved v, s)"
| "settle (Reject e) s = (Rejected e, s)"
| "settle (Throw e) s = (Pending, s\<lparr> unhandled := unhandled s @ [e] \<rparr>)"
| "settle Suspended s = (Pending, s)"

text \<open>
  \<^verbatim>\<open>catch (e) { reject(e); }\<close> in an executor \<^verbatim>\<open>async (resolve, reject) => ...\<close>, and
  the same block in an executor \<^verbatim>\<open>async (resolve) => ...\<close>, where the name \<^verbatim>\<open>reject\<close>
  is bound nowhere and evaluating it throws a ReferenceError.
\<close>

definition resolve_reject :: "exn \<Rightarrow> completion" where
  "resolve_reject e = Reject e"

definition resolve_only :: "exn \<Rightarrow> completion" where
  "resolve_only e = Throw (ReferenceError ''reject is not defined'')"

text \<open>
  The body shared by the operations,
  \<^verbatim>\<open>try { const resp = await this.http(..); resolve(..resp..); } catch (e) { reject(e); }\<close>,
  given the outcome of the \<^verbatim>\<open>http\<close> call, the expression passed to \<^verbatim>\<open>resolve\<close> and the
  catch block. An \<^verbatim>\<open>await\<close> on a promise that stays pending never resumes.
\<close>

definition try_await ::
  "(promise \<times> 'w state) option \<Rightarrow> (jsval \<Rightarrow> exn + jsval) \<Rightarrow> (exn \<Rightarrow> completion)
     \<Rightarrow> (promise \<times> 'w state) option" where
  "try_await call expr catch =
     (case call of
        None \<Rightarrow> None
      | Some (p, s') \<Rightarrow>
          Some (settle
                 (case p of
                    Resolved resp \<Rightarrow> (case expr resp of Inr v \<Rightarrow> Resolve v | Inl e \<Rightarrow> catch e)
                  | Rejected e \<Rightarrow> catch e
                  | Pending \<Rightarrow> Suspended) s'))"

definition startTorrents :: "'w net \<Rightarrow> 'w state \<Rightarrow> jsval \<Rightarrow> (promise \<times> 'w state) option" where
  "startTorrents net s ids =
     (case Object_assign (js_and ids (JObj [(''ids'', ids)])) of
        Inl e \<Rightarrow> Some (settle (resolve_reject e) s)
      | Inr payload \<Rightarrow>
          try_await (http net s ''torrent-start'' payload) arguments_or_null resolve_reject)"

definition startNowTorrents :: "'w net \<Rightarrow> 'w state \<Rightarrow> jsval \<Rightarrow> (promise \<times> 'w state) option" where
  "startNowTorrents net s ids =
     (case Object_assign (js_and ids (JObj [(''ids'', ids)])) of
        Inl e \<Rightarrow> Some (settle (resolve_reject e) s)
      | Inr payload \<Rightarrow>
          try_await (http net s ''torrent-start-now'' payload) arguments_or_null resolve_reject)"

definition stopTorrents :: "'w net \<Rightarrow> 'w state \<Rightarrow> jsval \<Rightarrow> (promise \<times> 'w state) option" where
  "stopTorrents net s ids =
     (case Object_assign (js_and ids (JObj [(''ids'', ids)])) of
        Inl e \<Rightarrow> Some (settle (resolve_reject e) s)
      | Inr payload \<Rightarrow>
          try_await (http net s ''torrent-stop'' payload) arguments_or_null resolve_reject)"

definition verifyTorrents :: "'w net \<Rightarrow> 'w state \<Rightarrow> jsval \<Rightarrow> (promise \<times> 'w state) option" where
  "verifyTorrents net s ids =
     (case Object_assign (js_and ids (JObj [(''ids'', ids)])) of
        Inl e \<Rightarrow> Some (settle (resolve_reject e) s)
      | Inr payload \<Rightarrow>
          try_await (http net s ''torrent-verify'' payload) arguments_or_null resolve_reject)"

definition reannounceTorrents :: "'w net \<Rightarrow> 'w state \<Rightarrow> jsval \<Rightarrow> (promise \<times> 'w state) option" where
  "reannounceTorrents net s ids =
     (case Object_assign (js_and ids (JObj [(''ids'', ids)])) of
        Inl e \<Rightarrow> Some (settle (resolve_reject e) s)
      | Inr payload \<Rightarrow>
          try_await (http net s ''torrent-reannounce'' payload) arguments_or_null resolve_reject)"

definition setTorrents :: "'w net \<Rightarrow> 'w state \<Rightarrow> jsval \<Rightarrow> (promise \<times> 'w state) option" where
  "setTorrents net s fields' =
     try_await (http net s ''torrent-set'' fields') arguments_or_null resolve_reject"

text \<open>
  \<^verbatim>\<open>getTorrents(ids = 0, fields = ["id", "name", "status", "downloadedEver", "uploadedEver"])\<close>:
  a default applies where the argument is missing or \<^verbatim>\<open>undefined\<close>.
\<close>

definition getTorrents :: "'w net \<Rightarrow> 'w state \<Rightarrow> jsval \<Rightarrow> jsval \<Rightarrow> (promise \<times> 'w state) option" where
  "getTorrents net s ids0 fields0 =
     (let ids = (if ids0 = JUndefined then JNum 0 else ids0);
          fields' = (if fields0 = JUndefined
                    then JArr [JStr ''id'', JStr ''name'', JStr ''status'',
                               JStr ''downloadedEver'', JStr ''uploadedEver'']
                    else fields0)
      in try_await (http net s ''torrent-get'' (JObj [(''fields'', fields'), (''ids'', ids)]))
           arguments_or_null resolve_reject)"

definition addTorrent :: "'w net \<Rightarrow> 'w state \<Rightarrow> jsval \<Rightarrow> (promise \<times> 'w state) option" where
  "addTorrent net s keys =
     try_await (http net s ''torrent-add'' keys) arguments_or_result resolve_reject"

definition removeTorrent :: "'w net \<Rightarrow> 'w state \<Rightarrow> jsval \<Rightarrow> (promise \<times> 'w state) option" where
  "removeTorrent net s keys =
     try_await (http net s ''torrent-remove'' keys) arguments_or_result resolve_reject"

definition moveTorrent :: "'w net \<Rightarrow> 'w state \<Rightarrow> jsval \<Rightarrow> (promise \<times> 'w state) option" where
  "moveTorrent net s keys =
     try_await (http net s ''torrent-set-location'' keys) arguments_or_result resolve_reject"

definition renameTorrent :: "'w net \<Rightarrow> 'w state \<Rightarrow> jsval \<Rightarrow> (promise \<times> 'w state) option" where
  "renameTorrent net s keys =
     try_await (http net s ''torrent-rename-path'' keys) arguments_or_result resolve_reject"

definition setSession :: "'w net \<Rightarrow> 'w state \<Rightarrow> jsval \<Rightarrow> (promise \<times> 'w state) option" where
  "setSession net s keys =
     try_await (http net s ''session-set'' keys) arguments_or_result resolve_reject"

definition getSession :: "'w net \<Rightarrow> 'w state \<Rightarrow> jsval \<Rightarrow> (promise \<times> 'w state) option" where
  "getSession net s fields' =
     try_await (http net s ''session-get'' (JObj [(''fields'', fields')])) arguments_or_result resolve_reject"

definition sessionStats :: "'w net \<Rightarrow> 'w state \<Rightarrow> (promise \<times> 'w state) option" where
  "sessionStats net s =
     try_await (http net s ''session-stats'' JUndefined) arguments_or_result resolve_reject"

definition blocklistUpdate :: "'w net \<Rightarrow> 'w state \<Rightarrow> (promise \<times> 'w state) option" where
  "blocklistUpdate net s =
     try_await (http net s ''blocklist-update'' JUndefined) arguments_or_result resolve_reject"

definition portTest :: "'w net \<Rightarrow> 'w state \<Rightarrow> (promise \<times> 'w state) option" where
  "portTest net s =
     try_await (http net s ''blocklist-update'' JUndefined) arguments_or_result resolve_reject"

text \<open>
  \<^verbatim>\<open>disconnect()\<close>: the executor is \<^verbatim>\<open>async (resolve) => ...\<close>; after the call has
  returned, the session id is cleared and the promise fulfils with \<^verbatim>\<open>undefined\<close>.
\<close>

definition disconnect :: "'w net \<Rightarrow> 'w state \<Rightarrow> (promise \<times> 'w state) option" where
  "disconnect net s =
     (case http net s ''session-close'' JUndefined of
        None \<Rightarrow> None
      | Some (Resolved resp, s') \<Rightarrow>
          Some (settle (Resolve JUndefined) (s'\<lparr> self := (self s')\<lparr> sessionId := JNull \<rparr> \<rparr>))
      | Some (Rejected e, s') \<Rightarrow> Some (settle (resolve_only e) s')
      | Some (Pending, s') \<Rightarrow> Some (settle Suspended s'))"

definition queueMoveTop :: "'w net \<Rightarrow> 'w state \<Rightarrow> jsval \<Rightarrow> (promise \<times> 'w state) option" where
  "queueMoveTop net s ids =
     try_await (http net s ''queue-move-top'' ids) arguments_or_result resolve_only"

definition queueMoveUp :: "'w net \<Rightarrow> 'w state \<Rightarrow> jsval \<Rightarrow> (promise \<times> 'w state) option" where
  "queueMoveUp net s ids =
     try_await (http net s ''queue-move-up'' ids) arguments_or_result resolve_only"

definition queueMoveDown :: "'w net \<Rightarrow> 'w state \<Rightarrow> jsval \<Rightarrow> (promise \<times> 'w state) option" where
  "queueMoveDown net s ids =
     try_await (http net s ''queue-move-down'' ids) arguments_or_result resolve_only"

definition queueMoveBottom :: "'w net \<Rightarrow> 'w state \<Rightarrow> jsval \<Rightarrow> (promise \<times> 'w state) option" where
  "queueMoveBottom net s ids =
     try_await (http net s ''queue-move-bottom'' ids) arguments_or_result resolve_only"

definition freeSpace :: "'w net \<Rightarrow> 'w state \<Rightarrow> jsval \<Rightarrow> (promise \<times> 'w state) option" where
  "freeSpace net s path =
     try_await (http net s ''free-space'' (JObj [(''path'', path)])) arguments_or_result resolve_reject"

definition groupSet :: "'w net \<Rightarrow> 'w state \<Rightarrow> jsval \<Rightarrow> (promise \<times> 'w state) option" where
  "groupSet net s keys =
     try_await (http net s ''group-set'' keys) arguments_or_result resolve_reject"

definition groupGet :: "'w net \<Rightarrow> 'w state \<Rightarrow> jsval \<Rightarrow> (promise \<times> 'w state) option" where
  "groupGet net s group' =
     try_await (http net s ''group-get'' group') arguments_or_result resolve_reject"

text \<open>One call of a public operation by the user of the instance, and its execution.\<close>

datatype call =
    StartTorrents jsval
  | StartNowTorrents jsval
  | StopTorrents jsval
  | VerifyTorrents jsval
  | ReannounceTorrents jsval
  | SetTorrents jsval
  | GetTorrents jsval jsval
  | AddTorrent jsval
  | RemoveTorrent jsval
  | MoveTorrent jsval
  | RenameTorrent jsval
  | SetSession jsval
  | GetSession jsval
  | SessionStats
  | BlocklistUpdate
  | PortTest
  | Disconnect
  | QueueMoveTop jsval
  | QueueMoveUp jsval
  | QueueMoveDown jsval
  | QueueMoveBottom jsval
  | FreeSpace jsval
  | GroupSet jsval
  | GroupGet jsval

fun invoke :: "'w net \<Rightarrow> 'w state \<Rightarrow> call \<Rightarrow> (promise \<times> 'w state) option" where
  "invoke net s (StartTorrents ids) = startTorrents net s ids"
| "invoke net s (StartNowTorrents ids) = startNowTorrents net s ids"
| "invoke net s (StopTorrents ids) = stopTorrents net s ids"
| "invoke net s (VerifyTorrents ids) = verifyTorrents net s ids"
| "invoke net s (ReannounceTorrents ids) = reannounceTorrents net s ids"
| "invoke net s (SetTorrents fields') = setTorrents net s fields'"
| "invoke net s (GetTorrents ids fields') = getTorrents net s ids fields'"
| "invoke net s (AddTorrent keys) = addTorrent net s keys"
| "invoke net s (RemoveTorrent keys) = removeTorrent net s keys"
| "invoke net s (MoveTorrent keys) = moveTorrent net s keys"
| "invoke net s (RenameTorrent keys) = renameTorrent net s keys"
| "invoke net s (SetSession keys) = setSession net s keys"
| "invoke net s (GetSession fields') = getSession net s fields'"
| "invoke net s SessionStats = sessionStats net s"
| "invoke net s BlocklistUpdate = blocklistUpdate net s"
| "invoke net s PortTest = portTest net s"
| "invoke net s Disconnect = disconnect net s"
| "invoke net s (QueueMoveTop ids) = queueMoveTop net s ids"
| "invoke net s (QueueMoveUp ids) = queueMoveUp net s ids"
| "invoke net s (QueueMoveDown ids) = queueMoveDown net s ids"
| "invoke net s (QueueMoveBottom ids) = queueMoveBottom net s ids"
| "invoke net s (FreeSpace path) = freeSpace net s path"
| "invoke net s (GroupSet keys) = groupSet net s keys"
| "invoke net s (GroupGet group') = groupGet net s group'"


text \<open>
  Running calls one after another on the same instance: each starts when the one before
  has left its state, whatever became of its promise.
\<close>

fun run :: "'w net \<Rightarrow> 'w state \<Rightarrow> call list \<Rightarrow> (promise list \<times> 'w state) option" where
  "run net s [] = Some ([], s)"
| "run net s (c # cs) =
     (case invoke net s c of
        None \<Rightarrow> None
      | Some (p, s') \<Rightarrow>
          (case run net s' cs of
             None \<Rightarrow> None
           | Some (ps, s'') \<Rightarrow> Some (p # ps, s'')))"

section \<open>Reading the log of exchanges\<close>

text \<open>The session header a request carries.\<close>

definition session_header :: "request \<Rightarrow> jsval" where
  "session_header req = lookup (headers req) ''x-transmission-session-id''"

text \<open>The token that an outcome issues: the session header of a 409 response.\<close>

fun challenge_token :: "exn + response \<Rightarrow> jsval option" where
  "challenge_token (Inr resp) = None"
| "challenge_token (Inl e) =
     (case err_response e of
        None \<Rightarrow> None
      | Some r \<Rightarrow> if status r = 409
                  then Some (lookup (resp_headers r) ''x-transmission-session-id'')
                  else None)"

text \<open>The token of the latest 409 response in a log, if there is one.\<close>

fun last_challenge :: "(request \<times> (exn + response)) list \<Rightarrow> jsval option" where
  "last_challenge [] = None"
| "last_challenge (x # xs) =
     (case last_challenge xs of
        Some t \<Rightarrow> Some t
      | None \<Rightarrow> challenge_token (snd x))"

text \<open>
  A log read against the token held when it starts: every request carries the token held
  at that moment, and a 409 response replaces the held token by the one it issues. The
  result is the token held at the end, \<open>None\<close> when some request carried another value.
\<close>

fun token_trace :: "jsval \<Rightarrow> (request \<times> (exn + response)) list \<Rightarrow> jsval option" where
  "token_trace t [] = Some t"
| "token_trace t (x # xs) =
     (if session_header (fst x) = t
      then token_trace (case challenge_token (snd x) of None \<Rightarrow> t | Some t' \<Rightarrow> t') xs
      else None)"

text \<open>The call whose success clears the session id.\<close>

fun clears :: "call \<Rightarrow> promise \<Rightarrow> bool" where
  "clears Disconnect (Resolved v) = True"
| "clears c p = False"

section \<open>A scripted collaborator\<close>

text \<open>
  A stand-in for the network whose world is the list of outcomes still to come: each
  request takes the next one, and the connection is refused when none is left.
\<close>

definition scripted :: "((exn + response) list) net" where
  "scripted w req =
     (case w of
        [] \<Rightarrow> (Inl (AxiosError ''connect ECONNREFUSED'' None), [])
      | out # rest \<Rightarrow> (out, rest))"

definition failure :: "int \<Rightarrow> (string \<times> jsval) list \<Rightarrow> exn + response" where
  "failure code hs =
     Inl (AxiosError ''Request failed''
            (Some \<lparr> status = code, resp_headers = hs, resp_data = JStr [] \<rparr>))"

definition challenge :: "string \<Rightarrow> exn + response" where
  "challenge t = failure 409 [(''x-transmission-session-id'', JStr t)]"

definition success :: "jsval \<Rightarrow> exn + response" where
  "success body = Inr \<lparr> status = 200, resp_headers = [], resp_data = body \<rparr>"

definition fresh :: "'w \<Rightarrow> 'w state" where
  "fresh w =
     \<lparr> self = \<lparr> this_url = ''http://localhost:9091/transmission/rpc'', sessionId = JNull,
                auth = ''dXNlcjpwYXNz'' \<rparr>,
       exchanges = [], unhandled = [], world = w \<rparr>"

section \<open>One pass of the loop\<close>

lemma constructor_holds_no_token:
  "constructor URL_toString base64 url' user password = Inr c \<Longrightarrow> sessionId c = JNull"
  by (auto simp add: constructor_def split: option.splits)

lemma http_fulfilled:
  "net (world s) (build_request (self s) m k) = (Inr resp, w') \<Longrightarrow>
   http net s m k =
     Some (Resolved (resp_data resp),
           s\<lparr> exchanges := exchanges s @ [(build_request (self s) m k, Inr resp)], world := w' \<rparr>)"
  by (subst http.simps) (simp add: Let_def)

lemma http_challenged:
  "net (world s) (build_request (self s) m k) = (Inl e, w') \<Longrightarrow>
   err_response e = Some r \<Longrightarrow> status r = 409 \<Longrightarrow>
   http net s m k =
     http net
       (s\<lparr> exchanges := exchanges s @ [(build_request (self s) m k, Inl e)], world := w',
           self := (self s)\<lparr> sessionId := lookup (resp_headers r) ''x-transmission-session-id'' \<rparr> \<rparr>)
       m k"
  by (subst http.simps) (simp add: Let_def)

lemma http_unauthorized:
  "net (world s) (build_request (self s) m k) = (Inl e, w') \<Longrightarrow>
   err_response e = Some r \<Longrightarrow> status r = 401 \<Longrightarrow>
   http net s m k =
     Some (Pending,
           s\<lparr> exchanges := exchanges s @ [(build_request (self s) m k, Inl e)],
               unhandled := unhandled s @ [Thrown (JStr ''Unauthorized to access RPC Server'')],
               world := w' \<rparr>)"
  by (subst http.simps) (simp add: Let_def)

lemma http_failed:
  "net (world s) (build_request (self s) m k) = (Inl e, w') \<Longrightarrow>
   map_option status (err_response e) \<noteq> Some 409 \<Longrightarrow>
   map_option status (err_response e) \<noteq> Some 401 \<Longrightarrow>
   http net s m k =
     Some (Rejected e,
           s\<lparr> exchanges := exchanges s @ [(build_request (self s) m k, Inl e)], world := w' \<rparr>)"
  by (subst http.simps) (auto simp add: Let_def split: option.splits)

lemma session_header_build: "session_header (build_request c m k) = sessionId c"
  by (simp add: session_header_def build_request_def lookup_def)


section \<open>Failures that are not retried\<close>

text \<open>
  Claim C4. When the request fails with a status other than 409 and 401, or with an error
  that has no response at all (a network error), \<^verbatim>\<open>http\<close> rejects with that very error
  value: one exchange is added to the log, and no further request is sent.
\<close>

theorem http_other_failure_rejects:
  assumes "net (world s) (build_request (self s) m k) = (Inl e, w')"
    and "map_option status (err_response e) \<noteq> Some 409"
    and "map_option status (err_response e) \<noteq> Some 401"
  shows "http net s m k =
           Some (Rejected e,
                 s\<lparr> exchanges := exchanges s @ [(build_request (self s) m k, Inl e)],
                     world := w' \<rparr>)"
  using assms by (rule http_failed)

theorem http_other_failure_rejects_witness:
  "http scripted (fresh [failure 500 [], success JNull]) ''session-stats'' JUndefined =
     Some (Rejected (AxiosError ''Request failed''
                      (Some \<lparr> status = 500, resp_headers = [], resp_data = JStr [] \<rparr>)),
           (fresh [success JNull])
             \<lparr> exchanges := [(build_request (self (fresh [success JNull])) ''session-stats'' JUndefined,
                               failure 500 [])] \<rparr>)
   \<and> http scripted (fresh []) ''session-stats'' JUndefined =
     Some (Rejected (AxiosError ''connect ECONNREFUSED'' None),
           (fresh [])
             \<lparr> exchanges := [(build_request (self (fresh [])) ''session-stats'' JUndefined,
                               Inl (AxiosError ''connect ECONNREFUSED'' None))] \<rparr>)"
  using http_other_failure_rejects [of scripted "fresh [failure 500 [], success JNull]"
          "''session-stats''" JUndefined
          "AxiosError ''Request failed'' (Some \<lparr> status = 500, resp_headers = [], resp_data = JStr [] \<rparr>)"
          "[success JNull]"]
        http_other_failure_rejects [of scripted "fresh []" "''session-stats''" JUndefined
          "AxiosError ''connect ECONNREFUSED'' None" "[]"]
  by (simp add: scripted_def fresh_def failure_def)



section \<open>The retry loop\<close>

lemma data_build:
  "data (build_request c m k) = JSON_stringify (JObj [(''method'', JStr m), (''arguments'', k)])"
  by (simp add: build_request_def)

lemma scripted_next: "scripted (out # rest) req = (out, rest)"
  by (simp add: scripted_def)

lemma http_scripted_challenges:
  "world s = replicate n (challenge t) @ success body # rest \<Longrightarrow>
   \<exists>s' new. http scripted s m k = Some (Resolved body, s')
       \<and> exchanges s' = exchanges s @ new \<and> length new = n + 1
       \<and> (\<forall>x\<in>set new. data (fst x) = JSON_stringify (JObj [(''method'', JStr m), (''arguments'', k)]))
       \<and> sessionId (self s') = (if n = 0 then sessionId (self s) else JStr t)
       \<and> world s' = rest"
proof (induction n arbitrary: s)
  case 0
  then show ?case
    by (simp add: http_fulfilled [where resp = "\<lparr> status = 200, resp_headers = [], resp_data = body \<rparr>" and w' = rest]
          scripted_next success_def data_build del: JSON_stringify.simps)
next
  case (Suc n)
  let ?r = "\<lparr> status = 409, resp_headers = [(''x-transmission-session-id'', JStr t)],
                      resp_data = JStr [] \<rparr>"
  let ?e = "AxiosError ''Request failed'' (Some ?r)"
  let ?s1 = "s\<lparr> exchanges := exchanges s @ [(build_request (self s) m k, Inl ?e)],
                world := replicate n (challenge t) @ success body # rest,
                self := (self s)\<lparr> sessionId :=
                          lookup (resp_headers ?r) ''x-transmission-session-id'' \<rparr> \<rparr>"
  have "scripted (world s) (build_request (self s) m k) =
          (Inl ?e, replicate n (challenge t) @ success body # rest)"
    using Suc.prems by (simp add: scripted_next challenge_def failure_def)
  then have step: "http scripted s m k = http scripted ?s1 m k"
    by (rule http_challenged) simp_all
  have "world ?s1 = replicate n (challenge t) @ success body # rest"
    by simp
  from Suc.IH [OF this] obtain s' new where
    s': "http scripted ?s1 m k = Some (Resolved body, s')"
      "exchanges s' = exchanges ?s1 @ new" "length new = n + 1"
      "\<forall>x\<in>set new. data (fst x) = JSON_stringify (JObj [(''method'', JStr m), (''arguments'', k)])"
      "sessionId (self s') = (if n = 0 then sessionId (self ?s1) else JStr t)"
      "world s' = rest"
    by blast
  show ?case
    apply (rule exI [of _ s'])
    apply (rule exI [of _ "(build_request (self s) m k, Inl ?e) # new"])
    using s' step by (simp add: data_build lookup_def del: JSON_stringify.simps)
qed

lemma http_always_challenged_aux:
  "http net s m k = Some y \<Longrightarrow>
   (\<forall>w req. \<exists>e r. fst (net w req) = Inl e \<and> err_response e = Some r \<and> status r = 409) \<Longrightarrow>
   False"
proof (induction net s m k y rule: http.raw_induct[rotated 1, consumes 1])
  case (1 http net s m k y)
  from 1(3) obtain e r where
    "fst (net (world s) (build_request (self s) m k)) = Inl e" "err_response e = Some r"
    "status r = 409"
    by blast
  with 1(2) have "http net
       (s\<lparr> exchanges := exchanges s @ [(build_request (self s) m k, Inl e)],
           world := snd (net (world s) (build_request (self s) m k)),
           self := (self s)\<lparr> sessionId := lookup (resp_headers r) ''x-transmission-session-id'' \<rparr> \<rparr>)
       m k = Some y"
    by (simp add: Let_def)
  from 1(1) [OF this 1(3)] show ?case .
qed

lemma http_always_challenged:
  assumes "\<forall>w req. \<exists>e r. fst (net w req) = Inl e \<and> err_response e = Some r \<and> status r = 409"
  shows "http net s m k = None"
proof (cases "http net s m k")
  case None
  then show ?thesis .
next
  case (Some y)
  from http_always_challenged_aux [OF this assms] show ?thesis ..
qed

text \<open>
  Claim C1. A pass of the loop that meets status 409 stores the session header of the
  response as the session id and runs \<^verbatim>\<open>http\<close> again with the same method and
  arguments; a pass whose request is fulfilled resolves with the body of the response
  and ends the loop. There is no bound on the passes: against \<open>n\<close> challenges followed
  by a success the call sends \<open>n + 1\<close> requests, all with the same body, and resolves;
  against a collaborator that always answers 409 it never returns.
\<close>

theorem http_retries_challenge_returns_success:
  "(\<forall>e r w'. net (world s) (build_request (self s) m k) = (Inl e, w') \<and>
              err_response e = Some r \<and> status r = 409 \<longrightarrow>
      http net s m k =
        http net
          (s\<lparr> exchanges := exchanges s @ [(build_request (self s) m k, Inl e)], world := w',
              self := (self s)\<lparr> sessionId :=
                        lookup (resp_headers r) ''x-transmission-session-id'' \<rparr> \<rparr>)
          m k)
   \<and> (\<forall>resp w'. net (world s) (build_request (self s) m k) = (Inr resp, w') \<longrightarrow>
      http net s m k =
        Some (Resolved (resp_data resp),
              s\<lparr> exchanges := exchanges s @ [(build_request (self s) m k, Inr resp)],
                  world := w' \<rparr>))
   \<and> (\<forall>n. \<exists>s' new.
          http scripted (s0\<lparr> world := replicate n (challenge t) @ success body # rest \<rparr>) m k =
            Some (Resolved body, s')
        \<and> exchanges s' = exchanges s0 @ new \<and> length new = n + 1
        \<and> (\<forall>x\<in>set new. data (fst x) =
               JSON_stringify (JObj [(''method'', JStr m), (''arguments'', k)]))
        \<and> sessionId (self s') = (if n = 0 then sessionId (self s0) else JStr t)
        \<and> world s' = rest)
   \<and> ((\<forall>w req. \<exists>e r. fst (net w req) = Inl e \<and> err_response e = Some r \<and> status r = 409) \<longrightarrow>
        http net s m k = None)"
proof (intro conjI allI impI)
  fix e r w'
  assume "net (world s) (build_request (self s) m k) = (Inl e, w') \<and>
              err_response e = Some r \<and> status r = 409"
  then show "http net s m k =
        http net
          (s\<lparr> exchanges := exchanges s @ [(build_request (self s) m k, Inl e)], world := w',
              self := (self s)\<lparr> sessionId :=
                        lookup (resp_headers r) ''x-transmission-session-id'' \<rparr> \<rparr>)
          m k"
    by (simp add: http_challenged)
next
  fix resp w'
  assume "net (world s) (build_request (self s) m k) = (Inr resp, w')"
  then show "http net s m k =
        Some (Resolved (resp_data resp),
              s\<lparr> exchanges := exchanges s @ [(build_request (self s) m k, Inr resp)],
                  world := w' \<rparr>)"
    by (rule http_fulfilled)
next
  fix n
  show "\<exists>s' new.
          http scripted (s0\<lparr> world := replicate n (challenge t) @ success body # rest \<rparr>) m k =
            Some (Resolved body, s')
        \<and> exchanges s' = exchanges s0 @ new \<and> length new = n + 1
        \<and> (\<forall>x\<in>set new. data (fst x) =
               JSON_stringify (JObj [(''method'', JStr m), (''arguments'', k)]))
        \<and> sessionId (self s') = (if n = 0 then sessionId (self s0) else JStr t)
        \<and> world s' = rest"
    using http_scripted_challenges
            [of "s0\<lparr> world := replicate n (challenge t) @ success body # rest \<rparr>" n t body rest m k]
    by (auto simp del: JSON_stringify.simps)
next
  assume "\<forall>w req. \<exists>e r. fst (net w req) = Inl e \<and> err_response e = Some r \<and> status r = 409"
  then show "http net s m k = None"
    by (rule http_always_challenged)
qed


theorem http_retries_challenge_returns_success_witness:
  "http scripted (fresh [challenge ''abc123'', success (JObj [(''result'', JStr ''success'')])])
     ''torrent-get'' JUndefined =
     Some (Resolved (JObj [(''result'', JStr ''success'')]),
           \<lparr> self = (self (fresh []))\<lparr> sessionId := JStr ''abc123'' \<rparr>,
             exchanges =
               [(build_request (self (fresh [])) ''torrent-get'' JUndefined, challenge ''abc123''),
                (build_request ((self (fresh []))\<lparr> sessionId := JStr ''abc123'' \<rparr>)
                   ''torrent-get'' JUndefined,
                 success (JObj [(''result'', JStr ''success'')]))],
             unhandled = [], world = [] \<rparr>)
   \<and> http (\<lambda>w req. (challenge ''abc123'', w)) (fresh ()) ''torrent-get'' JUndefined = None"
proof -
  let ?body = "JObj [(''result'', JStr ''success'')]"
  let ?r = "\<lparr> status = 409, resp_headers = [(''x-transmission-session-id'', JStr ''abc123'')],
             resp_data = JStr [] \<rparr>"
  let ?s0 = "fresh [challenge ''abc123'', success ?body]"
  let ?s1 = "?s0\<lparr> exchanges := exchanges ?s0 @
                 [(build_request (self ?s0) ''torrent-get'' JUndefined,
                   Inl (AxiosError ''Request failed'' (Some ?r)))],
               world := [success ?body],
               self := (self ?s0)\<lparr> sessionId :=
                         lookup (resp_headers ?r) ''x-transmission-session-id'' \<rparr> \<rparr>"
  have first: "http scripted ?s0 ''torrent-get'' JUndefined = http scripted ?s1 ''torrent-get'' JUndefined"
    by (rule http_retries_challenge_returns_success
               [THEN conjunct1, rule_format, of scripted ?s0 "''torrent-get''" JUndefined _ _ ?r])
       (simp add: scripted_def fresh_def challenge_def failure_def)
  have second: "http scripted ?s1 ''torrent-get'' JUndefined =
      Some (Resolved (resp_data \<lparr> status = 200, resp_headers = [], resp_data = ?body \<rparr>),
            ?s1\<lparr> exchanges := exchanges ?s1 @
                     [(build_request (self ?s1) ''torrent-get'' JUndefined,
                       Inr \<lparr> status = 200, resp_headers = [], resp_data = ?body \<rparr>)],
                 world := [] \<rparr>)"
    by (rule http_retries_challenge_returns_success
               [THEN conjunct2, THEN conjunct1, rule_format, of scripted ?s1 "''torrent-get''" JUndefined])
       (simp add: scripted_def success_def)
  have never: "http (\<lambda>w req. (challenge ''abc123'', w)) (fresh ()) ''torrent-get'' JUndefined = None"
    by (rule http_retries_challenge_returns_success
               [THEN conjunct2, THEN conjunct2, THEN conjunct2, rule_format])
       (simp add: challenge_def failure_def)
  show ?thesis
    using first second never
    by (simp add: fresh_def challenge_def failure_def success_def lookup_def)
qed



section \<open>What a call adds to the log\<close>


lemma http_trace:
  "http net s m k = Some y \<Longrightarrow>
   \<exists>new. exchanges (snd y) = exchanges s @ new \<and> new \<noteq> [] \<and>
     (\<forall>x\<in>set new. data (fst x) = JSON_stringify (JObj [(''method'', JStr m), (''arguments'', k)])) \<and>
     token_trace (sessionId (self s)) new = Some (sessionId (self (snd y)))"
proof (induction net s m k y rule: http.raw_induct[rotated 1, consumes 1])
  case (1 http net s m k y)
  let ?req = "build_request (self s) m k"
  obtain out w' where net: "net (world s) ?req = (out, w')"
    by (cases "net (world s) ?req")
  let ?s1 = "s\<lparr> exchanges := exchanges s @ [(?req, out)], world := w' \<rparr>"
  have single: "y = (p, s2) \<Longrightarrow> exchanges s2 = exchanges ?s1 \<Longrightarrow> self s2 = self s \<Longrightarrow>
      challenge_token out = None \<Longrightarrow> ?case" for p s2
    by (simp add: data_build session_header_build del: JSON_stringify.simps)
  show ?case
  proof (cases out)
    case (Inr resp)
    with 1(2) net show ?thesis
      by (intro single [of "Resolved (resp_data resp)" ?s1]) (simp_all add: Let_def)
  next
    case (Inl e)
    show ?thesis
    proof (cases "err_response e")
      case None
      with 1(2) net Inl show ?thesis
        by (intro single [of "Rejected e" ?s1]) (simp_all add: Let_def)
    next
      case (Some r)
      show ?thesis
      proof (cases "status r = 409")
        case False
        show ?thesis
        proof (cases "status r = 401")
          case True
          with 1(2) net Inl Some show ?thesis
            by (intro single [of Pending "?s1\<lparr> unhandled := unhandled ?s1 @
                              [Thrown (JStr ''Unauthorized to access RPC Server'')] \<rparr>"])
               (simp_all add: Let_def)
        next
          case F2: False
          with False 1(2) net Inl Some show ?thesis
            by (intro single [of "Rejected e" ?s1]) (simp_all add: Let_def)
        qed
      next
        case True
        let ?s2 = "?s1\<lparr> self := (self ?s1)\<lparr> sessionId :=
                      lookup (resp_headers r) ''x-transmission-session-id'' \<rparr> \<rparr>"
        from 1(2) net Inl Some True have "http net ?s2 m k = Some y"
          by (simp add: Let_def)
        from 1(1) [OF this] obtain new where
          new: "exchanges (snd y) = exchanges ?s2 @ new"
            "\<forall>x\<in>set new. data (fst x) = JSON_stringify (JObj [(''method'', JStr m), (''arguments'', k)])"
            "token_trace (sessionId (self ?s2)) new = Some (sessionId (self (snd y)))"
          by blast
        show ?thesis
          apply (rule exI [of _ "(?req, out) # new"])
          using new Inl Some True
          by (simp add: data_build session_header_build del: JSON_stringify.simps)
      qed
    qed
  qed
qed

lemma settle_keeps:
  "settle a s = (p, s') \<Longrightarrow> exchanges s' = exchanges s \<and> self s' = self s \<and> world s' = world s"
  by (cases a) auto

lemma try_await_keeps:
  "try_await call expr catch = Some (p, s') \<Longrightarrow>
   \<exists>q s1. call = Some (q, s1) \<and> exchanges s' = exchanges s1 \<and> self s' = self s1 \<and> world s' = world s1"
  by (auto simp add: try_await_def split: option.splits dest: settle_keeps)

lemma operation_trace:
  assumes "try_await (http net s m k) expr catch = Some (p, s')"
  shows "\<exists>new. exchanges s' = exchanges s @ new \<and> new \<noteq> [] \<and>
     (\<forall>x\<in>set new. data (fst x) = JSON_stringify (JObj [(''method'', JStr m), (''arguments'', k)])) \<and>
     token_trace (sessionId (self s)) new = Some (sessionId (self s'))"
proof -
  from try_await_keeps [OF assms] obtain q s1 where
    h: "http net s m k = Some (q, s1)" and k: "exchanges s' = exchanges s1" "self s' = self s1"
    by blast
  from http_trace [OF h] k show ?thesis by simp
qed



lemma token_trace_append:
  "token_trace t (xs @ ys) =
     (case token_trace t xs of None \<Rightarrow> None | Some t' \<Rightarrow> token_trace t' ys)"
  by (induction xs arbitrary: t) auto

lemma last_challenge_append:
  "last_challenge (xs @ ys) =
     (case last_challenge ys of Some t \<Rightarrow> Some t | None \<Rightarrow> last_challenge xs)"
  by (induction xs) (auto split: option.splits)

lemma token_trace_last:
  "token_trace t xs = Some t' \<Longrightarrow> t' = (case last_challenge xs of None \<Rightarrow> t | Some u \<Rightarrow> u)"
proof (induction xs arbitrary: t)
  case Nil
  then show ?case by simp
next
  case (Cons x xs)
  then show ?case
    by (cases "challenge_token (snd x)"; cases "last_challenge xs")
       (auto split: if_splits)
qed

lemma start_trace:
  assumes "(case Object_assign (js_and ids (JObj [(''ids'', ids)])) of
              Inl e \<Rightarrow> Some (settle (resolve_reject e) s)
            | Inr payload \<Rightarrow> try_await (http net s m payload) expr catch) = Some (p, s')"
  shows "\<exists>new. exchanges s' = exchanges s @ new \<and>
           token_trace (sessionId (self s)) new = Some (sessionId (self s'))"
proof (cases "Object_assign (js_and ids (JObj [(''ids'', ids)]))")
  case (Inl e)
  with assms have "s' = s" by (simp add: resolve_reject_def)
  then show ?thesis by simp
next
  case (Inr payload)
  with assms have "try_await (http net s m payload) expr catch = Some (p, s')" by simp
  from operation_trace [OF this] show ?thesis by blast
qed

lemma disconnect_trace:
  assumes "disconnect net s = Some (p, s')"
  shows "\<exists>new t. exchanges s' = exchanges s @ new \<and>
           token_trace (sessionId (self s)) new = Some t \<and>
           sessionId (self s') = (if clears Disconnect p then JNull else t)"
proof -
  from assms obtain q s1 where h: "http net s ''session-close'' JUndefined = Some (q, s1)"
    by (auto simp add: disconnect_def split: option.splits)
  from http_trace [OF h] obtain new where
    new: "exchanges s1 = exchanges s @ new"
      "token_trace (sessionId (self s)) new = Some (sessionId (self s1))"
    by auto
  show ?thesis
  proof (cases q)
    case (Resolved v)
    with assms h have "p = Resolved JUndefined" "s' = s1\<lparr> self := (self s1)\<lparr> sessionId := JNull \<rparr> \<rparr>"
      by (simp_all add: disconnect_def)
    with new show ?thesis by simp
  next
    case (Rejected e)
    with assms h have "p = Pending" "exchanges s' = exchanges s1" "self s' = self s1"
      by (auto simp add: disconnect_def resolve_only_def)
    with new show ?thesis by simp
  next
    case Pending
    with assms h have "p = Pending" "s' = s1"
      by (simp_all add: disconnect_def)
    with new show ?thesis by simp
  qed
qed

lemma invoke_trace:
  assumes "invoke net s c = Some (p, s')"
  shows "\<exists>new t. exchanges s' = exchanges s @ new \<and>
           token_trace (sessionId (self s)) new = Some t \<and>
           sessionId (self s') = (if clears c p then JNull else t)"
proof (cases "c = Disconnect")
  case True
  with assms disconnect_trace [of net s p s'] show ?thesis by simp
next
  case False
  then have nc: "\<not> clears c p" by (cases c) simp_all
  have "\<exists>new. exchanges s' = exchanges s @ new \<and>
           token_trace (sessionId (self s)) new = Some (sessionId (self s'))"
  proof (cases c)
    case (StartTorrents ids)
    with assms show ?thesis by (simp add: startTorrents_def start_trace)
  next
    case (StartNowTorrents ids)
    with assms show ?thesis by (simp add: startNowTorrents_def start_trace)
  next
    case (StopTorrents ids)
    with assms show ?thesis by (simp add: stopTorrents_def start_trace)
  next
    case (VerifyTorrents ids)
    with assms show ?thesis by (simp add: verifyTorrents_def start_trace)
  next
    case (ReannounceTorrents ids)
    with assms show ?thesis by (simp add: reannounceTorrents_def start_trace)
  next
    case Disconnect
    with False show ?thesis by simp
  next
    case (GetTorrents ids fields')
    with assms have "getTorrents net s ids fields' = Some (p, s')" by simp
    then show ?thesis
      unfolding getTorrents_def Let_def by (blast dest: operation_trace)
  qed (insert assms,
       auto simp add: setTorrents_def addTorrent_def removeTorrent_def moveTorrent_def
         renameTorrent_def setSession_def getSession_def sessionStats_def blocklistUpdate_def
         portTest_def queueMoveTop_def queueMoveUp_def queueMoveDown_def queueMoveBottom_def
         freeSpace_def groupSet_def groupGet_def
         simp del: JSON_stringify.simps dest!: operation_trace)
  with nc show ?thesis by auto
qed

lemma run_trace:
  "run net s cs = Some (ps, s1) \<Longrightarrow> \<forall>(c, p)\<in>set (zip cs ps). \<not> clears c p \<Longrightarrow>
   \<exists>old. exchanges s1 = exchanges s @ old \<and>
         token_trace (sessionId (self s)) old = Some (sessionId (self s1))"
proof (induction cs arbitrary: s ps)
  case Nil
  then show ?case by simp
next
  case (Cons c cs)
  from Cons.prems(1) obtain p s' ps' where
    step: "invoke net s c = Some (p, s')" and rest: "run net s' cs = Some (ps', s1)"
      and ps: "ps = p # ps'"
    by (auto split: option.splits)
  from Cons.prems(2) ps have nc: "\<not> clears c p" and ncs: "\<forall>(c, p)\<in>set (zip cs ps'). \<not> clears c p"
    by auto
  from invoke_trace [OF step] nc obtain new where
    new: "exchanges s' = exchanges s @ new"
      "token_trace (sessionId (self s)) new = Some (sessionId (self s'))"
    by auto
  from Cons.IH [OF rest ncs] obtain old where
    old: "exchanges s1 = exchanges s' @ old"
      "token_trace (sessionId (self s')) old = Some (sessionId (self s1))"
    by blast
  show ?case
    apply (rule exI [of _ "new @ old"])
    using new old by (simp add: token_trace_append)
qed

section \<open>The session token across calls\<close>

text \<open>
  Claim C3, as the code has it. Take calls made one after another on an instance since
  some state of it (a fresh instance, or one whose \<^verbatim>\<open>disconnect\<close> has just succeeded),
  none of them a \<^verbatim>\<open>disconnect\<close> that succeeded, and then one more call of any operation.
  Every request of the whole history carries the token held when it was built; the first
  request of the last call carries the token of the latest 409 response before it, whichever
  operation received that response, and the initial token when there was none; and the
  instance ends with the token of the latest 409 response, unless the last call is a
  \<^verbatim>\<open>disconnect\<close> that succeeded, which leaves \<^verbatim>\<open>null\<close>.
\<close>

theorem session_token_since_disconnect:
  assumes "run net s cs = Some (ps, s1)"
    and "\<forall>(c, p)\<in>set (zip cs ps). \<not> clears c p"
    and "invoke net s1 c = Some (p, s2)"
  shows "\<exists>old new. exchanges s1 = exchanges s @ old \<and> exchanges s2 = exchanges s1 @ new \<and>
           token_trace (sessionId (self s)) (old @ new) \<noteq> None \<and>
           sessionId (self s1) = (case last_challenge old of None \<Rightarrow> sessionId (self s) | Some t \<Rightarrow> t) \<and>
           (\<forall>x xs. new = x # xs \<longrightarrow>
              session_header (fst x) =
                (case last_challenge old of None \<Rightarrow> sessionId (self s) | Some t \<Rightarrow> t)) \<and>
           sessionId (self s2) =
             (if clears c p then JNull
              else case last_challenge (old @ new) of None \<Rightarrow> sessionId (self s) | Some t \<Rightarrow> t)"
proof -
  from run_trace [OF assms(1,2)] obtain old where
    old: "exchanges s1 = exchanges s @ old"
      "token_trace (sessionId (self s)) old = Some (sessionId (self s1))"
    by blast
  from invoke_trace [OF assms(3)] obtain new t where
    new: "exchanges s2 = exchanges s1 @ new"
      "token_trace (sessionId (self s1)) new = Some t"
      "sessionId (self s2) = (if clears c p then JNull else t)"
    by blast
  have all: "token_trace (sessionId (self s)) (old @ new) = Some t"
    using old(2) new(2) by (simp add: token_trace_append)
  have held: "sessionId (self s1) = (case last_challenge old of None \<Rightarrow> sessionId (self s) | Some t \<Rightarrow> t)"
    using token_trace_last [OF old(2)] .
  have first: "\<forall>x xs. new = x # xs \<longrightarrow> session_header (fst x) = sessionId (self s1)"
    using new(2) by (auto split: if_splits)
  have final: "t = (case last_challenge (old @ new) of None \<Rightarrow> sessionId (self s) | Some t \<Rightarrow> t)"
    using token_trace_last [OF all] .
  show ?thesis
    apply (rule exI [of _ old])
    apply (rule exI [of _ new])
    using old(1) new(1,3) all held first final by simp
qed


theorem session_token_since_disconnect_witness:
  "(case run scripted
           (fresh [challenge ''abc123'', success (JObj [(''result'', JStr ''success'')]),
                   success (JObj [(''result'', JStr ''success'')])])
           [GetTorrents JUndefined JUndefined] of
      None \<Rightarrow> False
    | Some (ps, s1) \<Rightarrow>
        (case invoke scripted s1 SessionStats of
           None \<Rightarrow> False
         | Some (p, s2) \<Rightarrow>
             map (\<lambda>x. session_header (fst x)) (exchanges s2) = [JNull, JStr ''abc123'', JStr ''abc123''] \<and>
             (\<exists>old new. exchanges s1 = old \<and> exchanges s2 = exchanges s1 @ new \<and>
                token_trace JNull (old @ new) \<noteq> None \<and>
                sessionId (self s1) = (case last_challenge old of None \<Rightarrow> JNull | Some t \<Rightarrow> t) \<and>
                (\<forall>x xs. new = x # xs \<longrightarrow>
                   session_header (fst x) =
                     (case last_challenge old of None \<Rightarrow> JNull | Some t \<Rightarrow> t)) \<and>
                sessionId (self s2) =
                  (if clears SessionStats p then JNull
                   else case last_challenge (old @ new) of None \<Rightarrow> JNull | Some t \<Rightarrow> t))))"
proof -
  let ?ok = "JObj [(''result'', JStr ''success'')]"
  let ?s0 = "fresh [challenge ''abc123'', success ?ok, success ?ok]"
  have "\<exists>ps s1. run scripted ?s0 [GetTorrents JUndefined JUndefined] = Some (ps, s1) \<and>
          world s1 = [success ?ok] \<and>
          map (\<lambda>x. session_header (fst x)) (exchanges s1) = [JNull, JStr ''abc123''] \<and>
          sessionId (self s1) = JStr ''abc123''"
    by (simp add: getTorrents_def try_await_def http.simps Let_def scripted_def fresh_def
          challenge_def failure_def success_def build_request_def lookup_def session_header_def
          arguments_or_null_def)
  then obtain ps s1 where
    r: "run scripted ?s0 [GetTorrents JUndefined JUndefined] = Some (ps, s1)"
    and w: "world s1 = [success ?ok]"
    and hs: "map (\<lambda>x. session_header (fst x)) (exchanges s1) = [JNull, JStr ''abc123'']"
    and held: "sessionId (self s1) = JStr ''abc123''"
    by (elim exE conjE)
  have nc: "\<forall>(c, p)\<in>set (zip [GetTorrents JUndefined JUndefined] ps). \<not> clears c p"
    by (cases ps) simp_all
  from w have sent: "scripted (world s1) (build_request (self s1) ''session-stats'' JUndefined) =
      (Inr \<lparr> status = 200, resp_headers = [], resp_data = ?ok \<rparr>, [])"
    by (simp add: scripted_def success_def)
  have "\<exists>p s2. invoke scripted s1 SessionStats = Some (p, s2) \<and>
          map (\<lambda>x. session_header (fst x)) (exchanges s2) = [JNull, JStr ''abc123'', JStr ''abc123'']"
    using hs held
    by (simp add: sessionStats_def try_await_def http_fulfilled [of scripted s1 "''session-stats''" JUndefined, OF sent] arguments_or_result_def
          lookup_def session_header_build)
  then obtain p s2 where
    i: "invoke scripted s1 SessionStats = Some (p, s2)"
    and hs2: "map (\<lambda>x. session_header (fst x)) (exchanges s2) = [JNull, JStr ''abc123'', JStr ''abc123'']"
    by (elim exE conjE)
  have f: "sessionId (self ?s0) = JNull" "exchanges ?s0 = []"
    by (simp_all add: fresh_def)
  from session_token_since_disconnect [OF r nc i, unfolded f append_Nil]
  have "\<exists>old new. exchanges s1 = old \<and> exchanges s2 = exchanges s1 @ new \<and>
                token_trace JNull (old @ new) \<noteq> None \<and>
                sessionId (self s1) = (case last_challenge old of None \<Rightarrow> JNull | Some t \<Rightarrow> t) \<and>
                (\<forall>x xs. new = x # xs \<longrightarrow>
                   session_header (fst x) =
                     (case last_challenge old of None \<Rightarrow> JNull | Some t \<Rightarrow> t)) \<and>
                sessionId (self s2) =
                  (if clears SessionStats p then JNull
                   else case last_challenge (old @ new) of None \<Rightarrow> JNull | Some t \<Rightarrow> t)" .
  with hs2 show ?thesis
    by (simp only: r i option.case prod.case)
qed

text \<open>
  Claim C3, as it is stated, fails after a \<^verbatim>\<open>disconnect\<close>: the call is challenged with
  the token \<^verbatim>\<open>abc123\<close> and then succeeds, and the only request of the next call carries
  \<^verbatim>\<open>null\<close>, not the token of that 409 response.
\<close>

theorem session_token_counterexample:
  "(case invoke scripted
           (fresh [challenge ''abc123'', success (JObj [(''result'', JStr ''success'')]),
                   success (JObj [(''result'', JStr ''success'')])])
           Disconnect of
      None \<Rightarrow> False
    | Some (p1, s1) \<Rightarrow>
        p1 = Resolved JUndefined \<and>
        last_challenge (exchanges s1) = Some (JStr ''abc123'') \<and>
        (case invoke scripted s1 SessionStats of
           None \<Rightarrow> False
         | Some (p2, s2) \<Rightarrow>
             map (\<lambda>x. session_header (fst x)) (drop (length (exchanges s1)) (exchanges s2)) =
               [JNull]))"
  by (simp add: disconnect_def sessionStats_def try_await_def http.simps Let_def scripted_def
        fresh_def challenge_def failure_def success_def build_request_def lookup_def
        session_header_def arguments_or_result_def)


section \<open>Disconnecting\<close>

text \<open>
  Claim C6. When the \<^verbatim>\<open>session-close\<close> call returns, \<^verbatim>\<open>disconnect\<close> fulfils and leaves
  the session id \<^verbatim>\<open>null\<close>; and after a \<^verbatim>\<open>disconnect\<close> that fulfilled, the session id is
  \<^verbatim>\<open>null\<close>, so the request that \<^verbatim>\<open>http\<close> builds first carries \<^verbatim>\<open>null\<close> as its session
  header, and so does the first request that any next operation sends.
\<close>

theorem disconnect_clears_session:
  "(\<forall>r s1. http net s ''session-close'' JUndefined = Some (Resolved r, s1) \<longrightarrow>
      disconnect net s =
        Some (Resolved JUndefined, s1\<lparr> self := (self s1)\<lparr> sessionId := JNull \<rparr> \<rparr>))
   \<and> (\<forall>v s'. disconnect net s = Some (Resolved v, s') \<longrightarrow>
        sessionId (self s') = JNull \<and>
        (\<forall>m k. session_header (build_request (self s') m k) = JNull) \<and>
        (\<forall>c p s2. invoke net s' c = Some (p, s2) \<longrightarrow>
           (\<exists>new. exchanges s2 = exchanges s' @ new \<and>
              (\<forall>x xs. new = x # xs \<longrightarrow> session_header (fst x) = JNull))))"
proof (intro conjI allI impI)
  fix r s1
  assume "http net s ''session-close'' JUndefined = Some (Resolved r, s1)"
  then show "disconnect net s =
        Some (Resolved JUndefined, s1\<lparr> self := (self s1)\<lparr> sessionId := JNull \<rparr> \<rparr>)"
    by (simp add: disconnect_def)
next
  fix v s'
  assume d: "disconnect net s = Some (Resolved v, s')"
  from disconnect_trace [OF d] show held: "sessionId (self s') = JNull"
    by auto
  fix m k
  from held show "session_header (build_request (self s') m k) = JNull"
    by (simp add: session_header_build)
next
  fix v s' c p s2
  assume d: "disconnect net s = Some (Resolved v, s')"
    and i: "invoke net s' c = Some (p, s2)"
  from disconnect_trace [OF d] have held: "sessionId (self s') = JNull"
    by auto
  from invoke_trace [OF i] obtain new t where
    new: "exchanges s2 = exchanges s' @ new" "token_trace (sessionId (self s')) new = Some t"
    by blast
  from new(2) held have "\<forall>x xs. new = x # xs \<longrightarrow> session_header (fst x) = JNull"
    by (auto split: if_splits)
  with new(1) show "\<exists>new. exchanges s2 = exchanges s' @ new \<and>
              (\<forall>x xs. new = x # xs \<longrightarrow> session_header (fst x) = JNull)"
    by blast
qed

theorem disconnect_clears_session_witness:
  "(case disconnect scripted
           (fresh [challenge ''abc123'', success (JObj [(''result'', JStr ''success'')]),
                   success (JObj [(''result'', JStr ''success'')])]) of
      None \<Rightarrow> False
    | Some (p1, s1) \<Rightarrow>
        p1 = Resolved JUndefined \<and>
        map (\<lambda>x. session_header (fst x)) (exchanges s1) = [JNull, JStr ''abc123''] \<and>
        sessionId (self s1) = JNull \<and>
        (case invoke scripted s1 SessionStats of
           None \<Rightarrow> False
         | Some (p2, s2) \<Rightarrow>
             (\<exists>new. exchanges s2 = exchanges s1 @ new \<and>
                (\<forall>x xs. new = x # xs \<longrightarrow> session_header (fst x) = JNull))))"
proof -
  let ?ok = "JObj [(''result'', JStr ''success'')]"
  let ?s0 = "fresh [challenge ''abc123'', success ?ok, success ?ok]"
  have "\<exists>r s1. http scripted ?s0 ''session-close'' JUndefined = Some (Resolved r, s1) \<and>
          world s1 = [success ?ok] \<and>
          map (\<lambda>x. session_header (fst x)) (exchanges s1) = [JNull, JStr ''abc123'']"
    by (simp add: http.simps Let_def scripted_def fresh_def challenge_def failure_def success_def
          build_request_def lookup_def session_header_def)
  then obtain r s1 where
    h: "http scripted ?s0 ''session-close'' JUndefined = Some (Resolved r, s1)"
    and w: "world s1 = [success ?ok]"
    and hs: "map (\<lambda>x. session_header (fst x)) (exchanges s1) = [JNull, JStr ''abc123'']"
    by (elim exE conjE)
  let ?s1 = "s1\<lparr> self := (self s1)\<lparr> sessionId := JNull \<rparr> \<rparr>"
  note T = disconnect_clears_session [of scripted ?s0]
  from T h have d: "disconnect scripted ?s0 = Some (Resolved JUndefined, ?s1)"
    by (elim conjE allE [of _ r] allE [of _ s1]) simp
  from w have sent: "scripted (world ?s1) (build_request (self ?s1) ''session-stats'' JUndefined) =
      (Inr \<lparr> status = 200, resp_headers = [], resp_data = ?ok \<rparr>, [])"
    by (simp add: scripted_def success_def)
  have "\<exists>p s2. invoke scripted ?s1 SessionStats = Some (p, s2)"
    by (simp add: sessionStats_def try_await_def arguments_or_result_def lookup_def
          http_fulfilled [of scripted ?s1 "''session-stats''" JUndefined, OF sent])
  then obtain p s2 where i: "invoke scripted ?s1 SessionStats = Some (p, s2)"
    by (elim exE)
  from T d i have post: "sessionId (self ?s1) = JNull \<and>
      (\<exists>new. exchanges s2 = exchanges ?s1 @ new \<and>
         (\<forall>x xs. new = x # xs \<longrightarrow> session_header (fst x) = JNull))"
    by blast
  have "map (\<lambda>x. session_header (fst x)) (exchanges ?s1) = [JNull, JStr ''abc123'']"
    using hs by simp
  with post show ?thesis
    by (simp only: d i option.case prod.case simp_thms)
qed

section \<open>What the operations send\<close>

text \<open>
  Claim C7. \<^verbatim>\<open>getTorrents()\<close> with no arguments is \<^verbatim>\<open>getTorrents\<close> with \<^verbatim>\<open>ids = 0\<close> and
  the five default fields, and every request it sends has the body
  \<^verbatim>\<open>{"method":"torrent-get","arguments":{"fields":["id","name","status","downloadedEver","uploadedEver"],"ids":0}}\<close>;
  it sends at least one.
\<close>

theorem getTorrents_defaults:
  "getTorrents net s JUndefined JUndefined =
     getTorrents net s (JNum 0)
       (JArr [JStr ''id'', JStr ''name'', JStr ''status'', JStr ''downloadedEver'',
              JStr ''uploadedEver''])
   \<and> (\<forall>p s'. getTorrents net s JUndefined JUndefined = Some (p, s') \<longrightarrow>
        (\<exists>new. exchanges s' = exchanges s @ new \<and> new \<noteq> [] \<and>
           (\<forall>x\<in>set new. data (fst x) =
              Some (JsonObj
                [(''method'', JsonStr ''torrent-get''),
                 (''arguments'',
                    JsonObj [(''fields'', JsonArr [JsonStr ''id'', JsonStr ''name'',
                                JsonStr ''status'', JsonStr ''downloadedEver'',
                                JsonStr ''uploadedEver'']),
                             (''ids'', JsonNum 0)])]))))"
proof (intro conjI allI impI)
  show "getTorrents net s JUndefined JUndefined =
     getTorrents net s (JNum 0)
       (JArr [JStr ''id'', JStr ''name'', JStr ''status'', JStr ''downloadedEver'',
              JStr ''uploadedEver''])"
    by (simp add: getTorrents_def)
next
  fix p s'
  assume "getTorrents net s JUndefined JUndefined = Some (p, s')"
  then have "try_await
       (http net s ''torrent-get''
          (JObj [(''fields'', JArr [JStr ''id'', JStr ''name'', JStr ''status'',
                                    JStr ''downloadedEver'', JStr ''uploadedEver'']),
                 (''ids'', JNum 0)]))
       arguments_or_null resolve_reject = Some (p, s')"
    by (simp add: getTorrents_def)
  from operation_trace [OF this]
  show "\<exists>new. exchanges s' = exchanges s @ new \<and> new \<noteq> [] \<and>
           (\<forall>x\<in>set new. data (fst x) =
              Some (JsonObj
                [(''method'', JsonStr ''torrent-get''),
                 (''arguments'',
                    JsonObj [(''fields'', JsonArr [JsonStr ''id'', JsonStr ''name'',
                                JsonStr ''status'', JsonStr ''downloadedEver'',
                                JsonStr ''uploadedEver'']),
                             (''ids'', JsonNum 0)])]))"
    by auto
qed

theorem getTorrents_defaults_witness:
  "(case getTorrents scripted
           (fresh [challenge ''abc123'',
                   success (JObj [(''result'', JStr ''success''),
                                  (''arguments'', JObj [(''torrents'', JArr [])])])])
           JUndefined JUndefined of
      None \<Rightarrow> False
    | Some (p, s') \<Rightarrow>
        p = Resolved (JObj [(''torrents'', JArr [])]) \<and>
        length (exchanges s') = 2 \<and>
        (\<exists>new. exchanges s' = new \<and> new \<noteq> [] \<and>
           (\<forall>x\<in>set new. data (fst x) =
              Some (JsonObj
                [(''method'', JsonStr ''torrent-get''),
                 (''arguments'',
                    JsonObj [(''fields'', JsonArr [JsonStr ''id'', JsonStr ''name'',
                                JsonStr ''status'', JsonStr ''downloadedEver'',
                                JsonStr ''uploadedEver'']),
                             (''ids'', JsonNum 0)])]))))"
proof -
  let ?body = "JObj [(''result'', JStr ''success''), (''arguments'', JObj [(''torrents'', JArr [])])]"
  let ?s0 = "fresh [challenge ''abc123'', success ?body]"
  have "\<exists>s'. getTorrents scripted ?s0 JUndefined JUndefined =
            Some (Resolved (JObj [(''torrents'', JArr [])]), s') \<and> length (exchanges s') = 2"
    by (simp add: getTorrents_def try_await_def http.simps Let_def scripted_def fresh_def
          challenge_def failure_def success_def lookup_def arguments_or_null_def)
  then obtain s' where
    g: "getTorrents scripted ?s0 JUndefined JUndefined =
            Some (Resolved (JObj [(''torrents'', JArr [])]), s')"
    and l: "length (exchanges s') = 2"
    by (elim exE conjE)
  have f: "exchanges ?s0 = []" by (simp add: fresh_def)
  from getTorrents_defaults [of scripted ?s0, THEN conjunct2, rule_format, OF g, unfolded f append_Nil] l
  show ?thesis
    by (simp only: g option.case prod.case simp_thms) (elim conjE, assumption)
qed

text \<open>
  Claim C9. \<^verbatim>\<open>portTest()\<close> is the same call as \<^verbatim>\<open>blocklistUpdate()\<close>: every request it
  sends names the remote method \<^verbatim>\<open>blocklist-update\<close>, with no arguments, and none names
  \<^verbatim>\<open>port-test\<close>.
\<close>

theorem portTest_sends_blocklist_update:
  "portTest net s = blocklistUpdate net s
   \<and> (\<forall>p s'. portTest net s = Some (p, s') \<longrightarrow>
        (\<exists>new. exchanges s' = exchanges s @ new \<and> new \<noteq> [] \<and>
           (\<forall>x\<in>set new.
              data (fst x) = Some (JsonObj [(''method'', JsonStr ''blocklist-update'')]) \<and>
              data (fst x) \<noteq> Some (JsonObj [(''method'', JsonStr ''port-test'')]))))"
proof (intro conjI allI impI)
  show "portTest net s = blocklistUpdate net s"
    by (simp add: portTest_def blocklistUpdate_def)
next
  fix p s'
  assume "portTest net s = Some (p, s')"
  then have "try_await (http net s ''blocklist-update'' JUndefined) arguments_or_result
               resolve_reject = Some (p, s')"
    by (simp add: portTest_def)
  from operation_trace [OF this]
  show "\<exists>new. exchanges s' = exchanges s @ new \<and> new \<noteq> [] \<and>
           (\<forall>x\<in>set new.
              data (fst x) = Some (JsonObj [(''method'', JsonStr ''blocklist-update'')]) \<and>
              data (fst x) \<noteq> Some (JsonObj [(''method'', JsonStr ''port-test'')]))"
    by auto
qed

theorem portTest_sends_blocklist_update_witness:
  "(case portTest scripted
           (fresh [success (JObj [(''result'', JStr ''success''),
                                  (''arguments'', JObj [(''blocklist-size'', JNum 42)])])]) of
      None \<Rightarrow> False
    | Some (p, s') \<Rightarrow>
        p = Resolved (JObj [(''blocklist-size'', JNum 42)]) \<and>
        (\<exists>new. exchanges s' = new \<and> new \<noteq> [] \<and>
           (\<forall>x\<in>set new.
              data (fst x) = Some (JsonObj [(''method'', JsonStr ''blocklist-update'')]) \<and>
              data (fst x) \<noteq> Some (JsonObj [(''method'', JsonStr ''port-test'')]))))"
proof -
  let ?body = "JObj [(''result'', JStr ''success''),
                     (''arguments'', JObj [(''blocklist-size'', JNum 42)])]"
  let ?s0 = "fresh [success ?body]"
  have "\<exists>s'. portTest scripted ?s0 = Some (Resolved (JObj [(''blocklist-size'', JNum 42)]), s')"
    by (simp add: portTest_def try_await_def http.simps Let_def scripted_def fresh_def
          success_def lookup_def arguments_or_result_def)
  then obtain s' where
    g: "portTest scripted ?s0 = Some (Resolved (JObj [(''blocklist-size'', JNum 42)]), s')"
    by (elim exE)
  have f: "exchanges ?s0 = []" by (simp add: fresh_def)
  from portTest_sends_blocklist_update
         [of scripted ?s0, THEN conjunct2, rule_format, OF g, unfolded f append_Nil]
  show ?thesis
    by (simp only: g option.case prod.case simp_thms) (elim conjE, assumption)
qed

section \<open>Errors that reach no caller\<close>

text \<open>
  Claim C2, on the code. The server answers 401 to \<^verbatim>\<open>startTorrents([1, 2])\<close>. One request
  is sent and none after it, although an outcome is left in the script; but the string
  \<^verbatim>\<open>Unauthorized to access RPC Server\<close> is thrown inside the executor, where it reaches
  no caller: the promise of \<^verbatim>\<open>http\<close>, and with it the promise of \<^verbatim>\<open>startTorrents\<close>,
  stays pending instead of rejecting.
\<close>

theorem unauthorized_stays_pending:
  "http scripted (fresh [failure 401 [], success JNull]) ''torrent-start''
     (JObj [(''ids'', JArr [JNum 1, JNum 2])]) =
     Some (Pending,
           \<lparr> self = self (fresh []),
             exchanges = [(build_request (self (fresh [])) ''torrent-start''
                             (JObj [(''ids'', JArr [JNum 1, JNum 2])]),
                           failure 401 [])],
             unhandled = [Thrown (JStr ''Unauthorized to access RPC Server'')],
             world = [success JNull] \<rparr>)
   \<and> startTorrents scripted (fresh [failure 401 [], success JNull]) (JArr [JNum 1, JNum 2]) =
     Some (Pending,
           \<lparr> self = self (fresh []),
             exchanges = [(build_request (self (fresh [])) ''torrent-start''
                             (JObj [(''ids'', JArr [JNum 1, JNum 2])]),
                           failure 401 [])],
             unhandled = [Thrown (JStr ''Unauthorized to access RPC Server'')],
             world = [success JNull] \<rparr>)"
  by (simp add: startTorrents_def js_and_def try_await_def http.simps Let_def scripted_def
        fresh_def failure_def)

text \<open>
  Claim C5, on the code. The server answers 500. \<^verbatim>\<open>disconnect\<close> and the four
  \<^verbatim>\<open>queueMove\<close> operations, whose executors take \<^verbatim>\<open>resolve\<close> only, throw a
  ReferenceError from their catch block and stay pending; \<^verbatim>\<open>removeTorrent\<close>, whose
  executor takes \<^verbatim>\<open>reject\<close> as well, rejects with the error of the transport.
\<close>

theorem unbound_reject_stays_pending:
  "map_option (\<lambda>y. (fst y, unhandled (snd y), length (exchanges (snd y))))
     (disconnect scripted (fresh [failure 500 []])) =
     Some (Pending, [ReferenceError ''reject is not defined''], 1)
   \<and> map_option (\<lambda>y. (fst y, unhandled (snd y), length (exchanges (snd y))))
     (queueMoveTop scripted (fresh [failure 500 []]) (JArr [JNum 1])) =
     Some (Pending, [ReferenceError ''reject is not defined''], 1)
   \<and> map_option (\<lambda>y. (fst y, unhandled (snd y), length (exchanges (snd y))))
     (queueMoveUp scripted (fresh [failure 500 []]) (JArr [JNum 1])) =
     Some (Pending, [ReferenceError ''reject is not defined''], 1)
   \<and> map_option (\<lambda>y. (fst y, unhandled (snd y), length (exchanges (snd y))))
     (queueMoveDown scripted (fresh [failure 500 []]) (JArr [JNum 1])) =
     Some (Pending, [ReferenceError ''reject is not defined''], 1)
   \<and> map_option (\<lambda>y. (fst y, unhandled (snd y), length (exchanges (snd y))))
     (queueMoveBottom scripted (fresh [failure 500 []]) (JArr [JNum 1])) =
     Some (Pending, [ReferenceError ''reject is not defined''], 1)
   \<and> map_option fst (removeTorrent scripted (fresh [failure 500 []]) (JObj [(''ids'', JArr [JNum 1])])) =
     Some (Rejected (AxiosError ''Request failed''
                       (Some \<lparr> status = 500, resp_headers = [], resp_data = JStr [] \<rparr>)))"
  by (simp add: disconnect_def queueMoveTop_def queueMoveUp_def queueMoveDown_def
        queueMoveBottom_def removeTorrent_def resolve_only_def resolve_reject_def try_await_def
        http.simps Let_def scripted_def fresh_def failure_def)

section \<open>Results that are not a success\<close>

lemma not_success_null:
  "get_prop resp ''result'' = Inr r \<Longrightarrow> r \<noteq> JStr ''success'' \<Longrightarrow> arguments_or_null resp = Inr JNull"
  by (simp add: arguments_or_null_def)

lemma not_success_result:
  "get_prop resp ''result'' = Inr r \<Longrightarrow> r \<noteq> JStr ''success'' \<Longrightarrow> arguments_or_result resp = Inr r"
  by (simp add: arguments_or_result_def)

text \<open>
  Claim C8. Let the response body have a \<^verbatim>\<open>result\<close> that is not the string
  \<^verbatim>\<open>success\<close>. When the \<^verbatim>\<open>http\<close> call of \<^verbatim>\<open>startTorrents\<close>, \<^verbatim>\<open>startNowTorrents\<close>,
  \<^verbatim>\<open>stopTorrents\<close>, \<^verbatim>\<open>verifyTorrents\<close> or \<^verbatim>\<open>reannounceTorrents\<close> returns that body,
  the operation resolves to \<^verbatim>\<open>null\<close>; when the call of \<^verbatim>\<open>removeTorrent\<close>, or of another
  operation of its kind, returns it, the operation resolves to the \<^verbatim>\<open>result\<close> itself.
\<close>

theorem non_success_result:
  assumes "get_prop resp ''result'' = Inr r" and "r \<noteq> JStr ''success''"
  shows "(\<forall>payload. Object_assign (js_and ids (JObj [(''ids'', ids)])) = Inr payload \<longrightarrow>
            (http net s ''torrent-start'' payload = Some (Resolved resp, s') \<longrightarrow>
               startTorrents net s ids = Some (Resolved JNull, s')) \<and>
            (http net s ''torrent-start-now'' payload = Some (Resolved resp, s') \<longrightarrow>
               startNowTorrents net s ids = Some (Resolved JNull, s')) \<and>
            (http net s ''torrent-stop'' payload = Some (Resolved resp, s') \<longrightarrow>
               stopTorrents net s ids = Some (Resolved JNull, s')) \<and>
            (http net s ''torrent-verify'' payload = Some (Resolved resp, s') \<longrightarrow>
               verifyTorrents net s ids = Some (Resolved JNull, s')) \<and>
            (http net s ''torrent-reannounce'' payload = Some (Resolved resp, s') \<longrightarrow>
               reannounceTorrents net s ids = Some (Resolved JNull, s')))
       \<and> (http net s ''torrent-remove'' keys = Some (Resolved resp, s') \<longrightarrow>
            removeTorrent net s keys = Some (Resolved r, s'))
       \<and> (http net s ''torrent-add'' keys = Some (Resolved resp, s') \<longrightarrow>
            addTorrent net s keys = Some (Resolved r, s'))
       \<and> (http net s ''torrent-set-location'' keys = Some (Resolved resp, s') \<longrightarrow>
            moveTorrent net s keys = Some (Resolved r, s'))
       \<and> (http net s ''torrent-rename-path'' keys = Some (Resolved resp, s') \<longrightarrow>
            renameTorrent net s keys = Some (Resolved r, s'))
       \<and> (http net s ''session-set'' keys = Some (Resolved resp, s') \<longrightarrow>
            setSession net s keys = Some (Resolved r, s'))
       \<and> (http net s ''session-get'' (JObj [(''fields'', keys)]) = Some (Resolved resp, s') \<longrightarrow>
            getSession net s keys = Some (Resolved r, s'))
       \<and> (http net s ''session-stats'' JUndefined = Some (Resolved resp, s') \<longrightarrow>
            sessionStats net s = Some (Resolved r, s'))
       \<and> (http net s ''blocklist-update'' JUndefined = Some (Resolved resp, s') \<longrightarrow>
            blocklistUpdate net s = Some (Resolved r, s') \<and>
            portTest net s = Some (Resolved r, s'))
       \<and> (http net s ''queue-move-top'' keys = Some (Resolved resp, s') \<longrightarrow>
            queueMoveTop net s keys = Some (Resolved r, s'))
       \<and> (http net s ''queue-move-up'' keys = Some (Resolved resp, s') \<longrightarrow>
            queueMoveUp net s keys = Some (Resolved r, s'))
       \<and> (http net s ''queue-move-down'' keys = Some (Resolved resp, s') \<longrightarrow>
            queueMoveDown net s keys = Some (Resolved r, s'))
       \<and> (http net s ''queue-move-bottom'' keys = Some (Resolved resp, s') \<longrightarrow>
            queueMoveBottom net s keys = Some (Resolved r, s'))
       \<and> (http net s ''free-space'' (JObj [(''path'', keys)]) = Some (Resolved resp, s') \<longrightarrow>
            freeSpace net s keys = Some (Resolved r, s'))
       \<and> (http net s ''group-set'' keys = Some (Resolved resp, s') \<longrightarrow>
            groupSet net s keys = Some (Resolved r, s'))
       \<and> (http net s ''group-get'' keys = Some (Resolved resp, s') \<longrightarrow>
            groupGet net s keys = Some (Resolved r, s'))"
proof -
  note n = not_success_null [OF assms] and v = not_success_result [OF assms]
  show ?thesis
    by (intro conjI allI impI)
       (simp_all add: startTorrents_def startNowTorrents_def stopTorrents_def verifyTorrents_def
          reannounceTorrents_def removeTorrent_def addTorrent_def moveTorrent_def
          renameTorrent_def setSession_def getSession_def sessionStats_def blocklistUpdate_def
          portTest_def queueMoveTop_def queueMoveUp_def queueMoveDown_def queueMoveBottom_def
          freeSpace_def groupSet_def groupGet_def try_await_def n v)
qed

theorem non_success_result_witness:
  "map_option fst
     (removeTorrent scripted (fresh [success (JObj [(''result'', JStr ''no such torrent'')])])
        (JObj [(''ids'', JArr [JNum 7])])) =
     Some (Resolved (JStr ''no such torrent''))
   \<and> map_option fst
     (startTorrents scripted (fresh [success (JObj [(''result'', JStr ''no such torrent'')])])
        (JArr [JNum 7])) =
     Some (Resolved JNull)"
proof -
  let ?resp = "JObj [(''result'', JStr ''no such torrent'')]"
  let ?s0 = "fresh [success ?resp]"
  have g: "get_prop ?resp ''result'' = Inr (JStr ''no such torrent'')"
    by (simp add: lookup_def)
  have ne: "JStr ''no such torrent'' \<noteq> JStr ''success''"
    by simp
  note T = non_success_result [OF g ne, of "JArr [JNum 7]" scripted ?s0 _ "JObj [(''ids'', JArr [JNum 7])]"]
  have "\<exists>s'. http scripted ?s0 ''torrent-remove'' (JObj [(''ids'', JArr [JNum 7])]) =
               Some (Resolved ?resp, s')"
    by (simp add: http.simps Let_def scripted_def fresh_def success_def)
  then obtain s1 where
    h1: "http scripted ?s0 ''torrent-remove'' (JObj [(''ids'', JArr [JNum 7])]) =
               Some (Resolved ?resp, s1)"
    by (elim exE)
  have "\<exists>s'. http scripted ?s0 ''torrent-start'' (JObj [(''ids'', JArr [JNum 7])]) =
               Some (Resolved ?resp, s')"
    by (simp add: http.simps Let_def scripted_def fresh_def success_def)
  then obtain s2 where
    h2: "http scripted ?s0 ''torrent-start'' (JObj [(''ids'', JArr [JNum 7])]) =
               Some (Resolved ?resp, s2)"
    by (elim exE)
  have oa: "Object_assign (js_and (JArr [JNum 7]) (JObj [(''ids'', JArr [JNum 7])])) =
              Inr (JObj [(''ids'', JArr [JNum 7])])"
    by (simp add: js_and_def)
  from T [of s1] h1 have a: "removeTorrent scripted ?s0 (JObj [(''ids'', JArr [JNum 7])]) =
      Some (Resolved (JStr ''no such torrent''), s1)"
    by (elim conjE) (erule (1) mp)
  from T [of s2, THEN conjunct1, rule_format, OF oa, THEN conjunct1, rule_format, OF h2]
  have b: "startTorrents scripted ?s0 (JArr [JNum 7]) = Some (Resolved JNull, s2)" .
  show ?thesis
    by (simp only: a b option.map fst_conv simp_thms)
qed

section \<open>Falsy ids\<close>

lemma falsy_cases:
  "\<not> truthy ids \<Longrightarrow>
   ids = JUndefined \<or> ids = JNull \<or> ids = JBool False \<or> ids = JNum 0 \<or> ids = JStr []"
  by (cases ids) auto

lemma start_falsy:
  assumes "\<not> truthy ids"
    and f_def: "f = (case Object_assign (js_and ids (JObj [(''ids'', ids)])) of
              Inl e \<Rightarrow> Some (settle (resolve_reject e) s)
            | Inr payload \<Rightarrow> try_await (http net s m payload) arguments_or_null resolve_reject)"
  shows "(ids = JUndefined \<or> ids = JNull \<longrightarrow>
            f = Some (Rejected (TypeError ''Cannot convert undefined or null to object''), s))
       \<and> (ids \<noteq> JUndefined \<and> ids \<noteq> JNull \<longrightarrow>
            (\<forall>p s'. f = Some (p, s') \<longrightarrow>
               (\<exists>new j. exchanges s' = exchanges s @ new \<and> new \<noteq> [] \<and>
                  j \<in> {JsonBool False, JsonNum 0, JsonStr []} \<and> (\<forall>kvs. j \<noteq> JsonObj kvs) \<and>
                  (\<forall>x\<in>set new. data (fst x) =
                     Some (JsonObj [(''method'', JsonStr m), (''arguments'', j)])))))"
proof (intro conjI impI allI)
  assume "ids = JUndefined \<or> ids = JNull"
  then show "f = Some (Rejected (TypeError ''Cannot convert undefined or null to object''), s)"
    by (auto simp add: f_def js_and_def resolve_reject_def)
next
  fix p s'
  assume ne: "ids \<noteq> JUndefined \<and> ids \<noteq> JNull" and r: "f = Some (p, s')"
  from falsy_cases [OF assms(1)] ne
  have prim: "ids = JBool False \<or> ids = JNum 0 \<or> ids = JStr []" by simp
  then have "Object_assign (js_and ids (JObj [(''ids'', ids)])) = Inr (JBox ids)"
    by (auto simp add: js_and_def)
  with r have "try_await (http net s m (JBox ids)) arguments_or_null resolve_reject = Some (p, s')"
    by (simp add: f_def)
  from operation_trace [OF this] obtain new where
    new: "exchanges s' = exchanges s @ new" "new \<noteq> []"
      "\<forall>x\<in>set new. data (fst x) = JSON_stringify (JObj [(''method'', JStr m), (''arguments'', JBox ids)])"
    by blast
  from prim obtain j where
    j: "JSON_stringify ids = Some j" "j \<in> {JsonBool False, JsonNum 0, JsonStr []}"
    by auto
  then have nobj: "\<forall>kvs. j \<noteq> JsonObj kvs" by auto
  from j(1) have "JSON_stringify (JObj [(''method'', JStr m), (''arguments'', JBox ids)]) =
      Some (JsonObj [(''method'', JsonStr m), (''arguments'', j)])"
    by simp
  with new j(2) nobj
  show "\<exists>new j. exchanges s' = exchanges s @ new \<and> new \<noteq> [] \<and>
                  j \<in> {JsonBool False, JsonNum 0, JsonStr []} \<and> (\<forall>kvs. j \<noteq> JsonObj kvs) \<and>
                  (\<forall>x\<in>set new. data (fst x) =
                     Some (JsonObj [(''method'', JsonStr m), (''arguments'', j)]))"
    by (intro exI [of _ new] exI [of _ j]) simp
qed

text \<open>
  Claim C10. Let \<^verbatim>\<open>ids\<close> be falsy, and take one of \<^verbatim>\<open>startTorrents\<close>,
  \<^verbatim>\<open>startNowTorrents\<close>, \<^verbatim>\<open>stopTorrents\<close>, \<^verbatim>\<open>verifyTorrents\<close>, \<^verbatim>\<open>reannounceTorrents\<close>.
  For \<^verbatim>\<open>undefined\<close> and \<^verbatim>\<open>null\<close> the operation rejects with the TypeError of
  \<^verbatim>\<open>Object.assign\<close> and the state is untouched: nothing was sent. For any other falsy
  value every request it sends has that primitive (\<^verbatim>\<open>false\<close>, \<^verbatim>\<open>0\<close> or \<^verbatim>\<open>""\<close>) as its
  \<^verbatim>\<open>arguments\<close>, which is no mapping: the \<^verbatim>\<open>arguments\<close> are neither left out nor an
  object without \<^verbatim>\<open>ids\<close>.
\<close>

theorem falsy_ids_payload:
  assumes "\<not> truthy ids"
    and "(c, m) \<in> set [(StartTorrents ids, ''torrent-start''),
                        (StartNowTorrents ids, ''torrent-start-now''),
                        (StopTorrents ids, ''torrent-stop''),
                        (VerifyTorrents ids, ''torrent-verify''),
                        (ReannounceTorrents ids, ''torrent-reannounce'')]"
  shows "(ids = JUndefined \<or> ids = JNull \<longrightarrow>
            invoke net s c =
              Some (Rejected (TypeError ''Cannot convert undefined or null to object''), s))
       \<and> (ids \<noteq> JUndefined \<and> ids \<noteq> JNull \<longrightarrow>
            (\<forall>p s'. invoke net s c = Some (p, s') \<longrightarrow>
               (\<exists>new j. exchanges s' = exchanges s @ new \<and> new \<noteq> [] \<and>
                  j \<in> {JsonBool False, JsonNum 0, JsonStr []} \<and> (\<forall>kvs. j \<noteq> JsonObj kvs) \<and>
                  (\<forall>x\<in>set new. data (fst x) =
                     Some (JsonObj [(''method'', JsonStr m), (''arguments'', j)])))))"
proof -
  from assms(2) have
    "(c = StartTorrents ids \<and> m = ''torrent-start'') \<or>
     (c = StartNowTorrents ids \<and> m = ''torrent-start-now'') \<or>
     (c = StopTorrents ids \<and> m = ''torrent-stop'') \<or>
     (c = VerifyTorrents ids \<and> m = ''torrent-verify'') \<or>
     (c = ReannounceTorrents ids \<and> m = ''torrent-reannounce'')"
    by (simp only: set_simps insert_iff empty_iff prod.inject simp_thms)
  then consider
      "c = StartTorrents ids" "m = ''torrent-start''"
    | "c = StartNowTorrents ids" "m = ''torrent-start-now''"
    | "c = StopTorrents ids" "m = ''torrent-stop''"
    | "c = VerifyTorrents ids" "m = ''torrent-verify''"
    | "c = ReannounceTorrents ids" "m = ''torrent-reannounce''"
    by (elim disjE conjE)
  then show ?thesis
  proof cases
    case 1
    with start_falsy [OF assms(1) startTorrents_def, of net s] show ?thesis
      by (simp only: invoke.simps)
  next
    case 2
    with start_falsy [OF assms(1) startNowTorrents_def, of net s] show ?thesis
      by (simp only: invoke.simps)
  next
    case 3
    with start_falsy [OF assms(1) stopTorrents_def, of net s] show ?thesis
      by (simp only: invoke.simps)
  next
    case 4
    with start_falsy [OF assms(1) verifyTorrents_def, of net s] show ?thesis
      by (simp only: invoke.simps)
  next
    case 5
    with start_falsy [OF assms(1) reannounceTorrents_def, of net s] show ?thesis
      by (simp only: invoke.simps)
  qed
qed

theorem falsy_ids_payload_witness:
  "startTorrents scripted (fresh [success JNull]) JUndefined =
     Some (Rejected (TypeError ''Cannot convert undefined or null to object''), fresh [success JNull])
   \<and> (case stopTorrents scripted (fresh [success (JObj [(''result'', JStr ''success'')])]) (JNum 0) of
        None \<Rightarrow> False
      | Some (p, s') \<Rightarrow>
          map (\<lambda>x. data (fst x)) (exchanges s') =
            [Some (JsonObj [(''method'', JsonStr ''torrent-stop''), (''arguments'', JsonNum 0)])] \<and>
          (\<exists>new j. exchanges s' = new \<and> new \<noteq> [] \<and>
                  j \<in> {JsonBool False, JsonNum 0, JsonStr []} \<and> (\<forall>kvs. j \<noteq> JsonObj kvs) \<and>
                  (\<forall>x\<in>set new. data (fst x) =
                     Some (JsonObj [(''method'', JsonStr ''torrent-stop''), (''arguments'', j)]))))"
proof -
  let ?s0 = "fresh [success (JObj [(''result'', JStr ''success'')])]"
  have a: "startTorrents scripted (fresh [success JNull]) JUndefined =
     Some (Rejected (TypeError ''Cannot convert undefined or null to object''), fresh [success JNull])"
    using falsy_ids_payload [of JUndefined "StartTorrents JUndefined" "''torrent-start''"
                               scripted "fresh [success JNull]"]
    by simp
  have "\<exists>p s'. stopTorrents scripted ?s0 (JNum 0) = Some (p, s') \<and>
          map (\<lambda>x. data (fst x)) (exchanges s') =
            [Some (JsonObj [(''method'', JsonStr ''torrent-stop''), (''arguments'', JsonNum 0)])]"
    by (simp add: stopTorrents_def js_and_def try_await_def http.simps Let_def scripted_def
          fresh_def success_def build_request_def arguments_or_null_def lookup_def)
  then obtain p s' where
    r: "stopTorrents scripted ?s0 (JNum 0) = Some (p, s')"
    and d: "map (\<lambda>x. data (fst x)) (exchanges s') =
            [Some (JsonObj [(''method'', JsonStr ''torrent-stop''), (''arguments'', JsonNum 0)])]"
    by (elim exE conjE)
  have f: "exchanges ?s0 = []" by (simp add: fresh_def)
  have i: "invoke scripted ?s0 (StopTorrents (JNum 0)) = Some (p, s')"
    using r by simp
  have b: "\<exists>new j. exchanges s' = new \<and> new \<noteq> [] \<and>
                  j \<in> {JsonBool False, JsonNum 0, JsonStr []} \<and> (\<forall>kvs. j \<noteq> JsonObj kvs) \<and>
                  (\<forall>x\<in>set new. data (fst x) =
                     Some (JsonObj [(''method'', JsonStr ''torrent-stop''), (''arguments'', j)]))"
    using falsy_ids_payload [of "JNum 0" "StopTorrents (JNum 0)" "''torrent-stop''" scripted ?s0,
            THEN conjunct2, rule_format, OF _ _ _ i, unfolded f append_Nil]
    by simp
  from a d b show ?thesis
    by (simp only: r option.case prod.case simp_thms)
qed

end
